theory Spec2Isabelle
  imports Complex_Main "HOL-Library.Word"
begin

unbundle bit_operations_syntax

section \<open>Strings\<close>

text \<open>
  A Python \<open>str\<close> is modelled as a \<open>string\<close>; each \<open>char\<close> stands for one code
  point below 256. \<open>str.strip()\<close> removes leading and trailing characters for which
  \<open>str.isspace\<close> holds; below 256 these are the code points 9 to 13, 28 to 32, 133
  and 160.
\<close>

definition isspace :: "char \<Rightarrow> bool" where
  "isspace c = ((of_char c :: nat) \<in> {9, 10, 11, 12, 13, 28, 29, 30, 31, 32, 133, 160})"

definition strip :: "string \<Rightarrow> string" where
  "strip s = rev (dropWhile isspace (rev (dropWhile isspace s)))"

section \<open>Validation\<close>

text \<open>
  \<open>validate_form_data\<close> (lab6.py, lines 39 to 49). The list \<open>errors\<close> starts empty and
  each of the four \<open>if\<close> statements appends at most one message; \<open>not s\<close> on a string
  is \<open>s = []\<close>.
\<close>

definition validate_form_data :: "string \<Rightarrow> string \<Rightarrow> string \<Rightarrow> string \<Rightarrow> string list" where
  "validate_form_data crime_type location officer description =
    (let errors = [];
         errors = (if crime_type = [] then errors @ [''Crime type is required''] else errors);
         errors = (if location = [] \<or> length (strip location) < 2
                   then errors @ [''Location must be at least 2 characters long''] else errors);
         errors = (if officer = [] then errors @ [''Officer assignment is required''] else errors);
         errors = (if description = [] \<or> length (strip description) < 10
                   then errors @ [''Description must be at least 10 characters long''] else errors)
     in errors)"

section \<open>Numbers, dates and identifiers\<close>

text \<open>
  Decimal and hexadecimal rendering of non-negative integers, as \<open>str\<close>, \<open>%d\<close> and
  \<open>%x\<close> produce them; \<open>zfill\<close> pads with zeros on the left to a given width.
\<close>

definition digit_char :: "nat \<Rightarrow> char" where
  "digit_char n = ''0123456789abcdef'' ! n"

fun decimal :: "nat \<Rightarrow> string" where
  "decimal n = (if n < 10 then [digit_char n] else decimal (n div 10) @ [digit_char (n mod 10)])"

declare decimal.simps [simp del]

definition zfill :: "nat \<Rightarrow> string \<Rightarrow> string" where
  "zfill w s = replicate (w - length s) (CHR ''0'') @ s"

text \<open>
  \<open>datetime.date\<close> and its subclass \<open>datetime.datetime\<close>. The formats used by the
  program: \<open>%Y%m%d\<close>, \<open>%Y-%m-%d\<close>, \<open>%Y-%m-%d %H:%M:%S\<close> and \<open>isoformat()\<close>. \<open>%Y\<close> is the
  year as the library documents it, four digits padded with zeros; \<open>isoformat()\<close> leaves
  the microseconds out when they are zero.
\<close>

record date =
  year :: nat
  month :: nat
  day :: nat

record datetime = date +
  hour :: nat
  minute :: nat
  second :: nat
  microsecond :: nat

definition strftime_Ymd :: "'a date_scheme \<Rightarrow> string" where
  "strftime_Ymd d = zfill 4 (decimal (year d)) @ zfill 2 (decimal (month d)) @ zfill 2 (decimal (day d))"

definition strftime_Y_m_d :: "'a date_scheme \<Rightarrow> string" where
  "strftime_Y_m_d d =
     zfill 4 (decimal (year d)) @ ''-'' @ zfill 2 (decimal (month d)) @ ''-'' @ zfill 2 (decimal (day d))"

definition strftime_H_M_S :: "'a datetime_scheme \<Rightarrow> string" where
  "strftime_H_M_S t =
     zfill 2 (decimal (hour t)) @ '':'' @ zfill 2 (decimal (minute t)) @ '':'' @ zfill 2 (decimal (second t))"

definition strftime_Y_m_d_H_M_S :: "'a datetime_scheme \<Rightarrow> string" where
  "strftime_Y_m_d_H_M_S t = strftime_Y_m_d t @ '' '' @ strftime_H_M_S t"

definition isoformat :: "'a datetime_scheme \<Rightarrow> string" where
  "isoformat t =
     strftime_Y_m_d t @ ''T'' @ strftime_H_M_S t @
     (if microsecond t = 0 then [] else ''.'' @ zfill 6 (decimal (microsecond t)))"

text \<open>
  A UUID is a 128-bit integer; \<open>str\<close> of it is its 32 lower-case hexadecimal digits,
  most significant first, in groups of 8, 4, 4, 4 and 12 joined by hyphens.
\<close>

definition hex32 :: "nat \<Rightarrow> string" where
  "hex32 n = map (\<lambda>i. digit_char ((n div 16 ^ i) mod 16)) (rev [0..<32])"

definition uuid_str :: "128 word \<Rightarrow> string" where
  "uuid_str u =
     (let h = hex32 (unat u)
      in take 8 h @ ''-'' @ take 4 (drop 8 h) @ ''-'' @ take 4 (drop 12 h) @ ''-'' @
         take 4 (drop 16 h) @ ''-'' @ drop 20 h)"

text \<open>
  \<open>str.upper()\<close> and the lower-casing behind a case-insensitive match, on the code
  points below 256 whose counterpart is below 256 too: the ASCII letters and the
  Latin-1 letters 192 to 222 (215 apart) with 224 to 254 (247 apart).
\<close>

definition upper_char :: "char \<Rightarrow> char" where
  "upper_char c =
     (let n = (of_char c :: nat)
      in if (97 \<le> n \<and> n \<le> 122) \<or> (224 \<le> n \<and> n \<le> 254 \<and> n \<noteq> 247) then char_of (n - 32) else c)"

definition lower_char :: "char \<Rightarrow> char" where
  "lower_char c =
     (let n = (of_char c :: nat)
      in if (65 \<le> n \<and> n \<le> 90) \<or> (192 \<le> n \<and> n \<le> 222 \<and> n \<noteq> 215) then char_of (n + 32) else c)"

definition upper :: "string \<Rightarrow> string" where
  "upper s = map upper_char s"

text \<open>
  \<open>generate_crime_id\<close> (lines 36 and 37) reads the clock and draws a random UUID; both
  are arguments here.
\<close>

definition generate_crime_id :: "'a datetime_scheme \<Rightarrow> 128 word \<Rightarrow> string" where
  "generate_crime_id now u = ''CASE-'' @ strftime_Ymd now @ ''-'' @ upper (take 6 (uuid_str u))"

section \<open>The session state\<close>

text \<open>
  A crime record is the dictionary built in \<open>add_crime\<close> (lines 126 to 138), with its
  eleven keys in order. The type parameter is the type of the \<open>Incident_Date\<close> value:
  a string in the records of the session, a cell of a data frame column in
  \<open>view_crimes\<close>, where \<open>pd.to_datetime\<close> may have replaced the strings by timestamps.
\<close>

record 'd crime =
  ID :: string
  Type :: string
  Location :: string
  Officer :: string
  Status :: string
  Priority :: string
  Description :: string
  Notes :: string
  Date_Registered :: string
  Incident_Date :: 'd
  Files :: nat

type_synonym bytes = "8 word list"

text \<open>
  \<open>st.session_state\<close> holds three keys. Before \<open>initialize_session_state\<close> (lines 22
  to 28) has run a key may be absent; afterwards all three are present.
\<close>

record raw_session =
  raw_crimes :: "string crime list option"
  raw_uploaded_files :: "(string \<rightharpoonup> string list) option"
  raw_officers :: "string list option"

record session =
  crimes :: "string crime list"
  uploaded_files :: "string \<rightharpoonup> string list"
  officers :: "string list"

definition default_officers :: "string list" where
  "default_officers =
     [''Officer Smith'', ''Officer Johnson'', ''Officer Brown'', ''Officer Davis'', ''Officer Wilson'']"

definition initialize_session_state :: "raw_session \<Rightarrow> session" where
  "initialize_session_state r =
     \<lparr>crimes = (case raw_crimes r of None \<Rightarrow> [] | Some cs \<Rightarrow> cs),
      uploaded_files = (case raw_uploaded_files r of None \<Rightarrow> Map.empty | Some m \<Rightarrow> m),
      officers = (case raw_officers r of None \<Rightarrow> default_officers | Some os \<Rightarrow> os)\<rparr>"

definition CRIME_TYPES :: "string list" where
  "CRIME_TYPES = [''Theft'', ''Murder'', ''Assault'', ''Cybercrime'', ''Fraud'', ''Burglary'',
     ''Drug Offense'', ''Vandalism'', ''Domestic Violence'', ''Other'']"

definition STATUSES :: "string list" where
  "STATUSES = [''Open'', ''Under Investigation'', ''Closed'', ''Cold Case'', ''Pending Review'']"

definition PRIORITIES :: "string list" where
  "PRIORITIES = [''Low'', ''Medium'', ''High'', ''Critical'']"

text \<open>
  The sidebar (lines 74 to 80): the button and the text of the input are the arguments.
\<close>

definition add_officer :: "bool \<Rightarrow> string \<Rightarrow> session \<Rightarrow> session" where
  "add_officer button new_officer s =
     (if button \<and> new_officer \<noteq> [] then
        (if new_officer \<notin> set (officers s) then s\<lparr>officers := officers s @ [new_officer]\<rparr> else s)
      else s)"

section \<open>Registering a case\<close>

text \<open>
  The upload directory is part of the state: the directories that exist and the
  content of every file. \<open>os.makedirs\<close> and \<open>open\<close> are taken to succeed.
\<close>

record filesystem =
  dirs :: "string list"
  files :: "string \<rightharpoonup> bytes"

record world =
  session_state :: session
  disk :: filesystem

record uploaded_file =
  upload_name :: string
  upload_bytes :: bytes

text \<open>The values of the form widgets when the script runs (lines 92 to 107).\<close>

record crime_form =
  form_crime_type :: string
  form_location :: string
  form_priority :: string
  form_officer :: string
  form_status :: string
  form_incident_date :: date
  form_description :: string
  form_file_upload :: "uploaded_file list"
  form_notes :: string
  form_submitted :: bool

text \<open>
  What \<open>add_crime\<close> reads from outside: the clock, read once for the identifier and
  once for \<open>Date_Registered\<close>, and the random UUID.
\<close>

record environment =
  now_for_id :: datetime
  uuid4 :: "128 word"
  now_for_record :: datetime

text \<open>The loop of lines 119 to 123: every file is written, its path collected.\<close>

fun save_uploads ::
  "string \<Rightarrow> uploaded_file list \<Rightarrow> (string \<rightharpoonup> bytes) \<Rightarrow> string list
     \<Rightarrow> (string \<rightharpoonup> bytes) \<times> string list" where
  "save_uploads crime_id [] fs uploaded = (fs, uploaded)"
| "save_uploads crime_id (f # rest) fs uploaded =
     (let file_name = ''uploads/'' @ crime_id @ ''_'' @ upload_name f
      in save_uploads crime_id rest (fs(file_name \<mapsto> upload_bytes f)) (uploaded @ [file_name]))"

text \<open>
  The messages of a run of the form: nothing when the form was not submitted, one
  \<open>st.error\<close> per validation message, or \<open>st.success\<close> with the new identifier.
\<close>

datatype submit_result = Not_submitted | Rejected "string list" | Registered string

definition add_crime :: "environment \<Rightarrow> crime_form \<Rightarrow> world \<Rightarrow> submit_result \<times> world" where
  "add_crime env form w =
     (if \<not> form_submitted form then (Not_submitted, w)
      else
        let errors = validate_form_data (form_crime_type form) (form_location form)
                       (form_officer form) (form_description form)
        in if errors \<noteq> [] then (Rejected errors, w)
           else
             let crime_id = generate_crime_id (now_for_id env) (uuid4 env);
                 s = session_state w;
                 d = disk w;
                 (d, s, uploaded) =
                   (if form_file_upload form \<noteq> [] then
                      let (fs, uploaded) = save_uploads crime_id (form_file_upload form) (files d) []
                      in (\<lparr>dirs = List.insert ''uploads'' (dirs d), files = fs\<rparr>,
                          s\<lparr>uploaded_files := (uploaded_files s)(crime_id \<mapsto> uploaded)\<rparr>,
                          uploaded)
                    else (d, s, []));
                 crime_record =
                   \<lparr>ID = crime_id,
                    Type = form_crime_type form,
                    Location = form_location form,
                    Officer = form_officer form,
                    Status = form_status form,
                    Priority = form_priority form,
                    Description = form_description form,
                    Notes = form_notes form,
                    Date_Registered = strftime_Y_m_d_H_M_S (now_for_record env),
                    Incident_Date = strftime_Y_m_d (form_incident_date form),
                    Files = (if uploaded \<noteq> [] then length uploaded else 0)\<rparr>
             in (Registered crime_id,
                 \<lparr>session_state = s\<lparr>crimes := crimes s @ [crime_record]\<rparr>, disk = d\<rparr>))"

section \<open>Viewing and filtering cases\<close>

text \<open>
  \<open>pd.DataFrame(st.session_state.crimes)\<close>: one row per record, the columns in key
  order. A cell of the \<open>Incident_Date\<close> column is the string of the record, or a
  timestamp once \<open>pd.to_datetime\<close> has converted the column.
\<close>

datatype date_cell = DateStr string | DateTs date

type_synonym row = "date_cell crime"

definition with_incident_date :: "'a crime \<Rightarrow> 'b \<Rightarrow> 'b crime" where
  "with_incident_date c d =
     \<lparr>ID = ID c, Type = Type c, Location = Location c, Officer = Officer c, Status = Status c,
      Priority = Priority c, Description = Description c, Notes = Notes c,
      Date_Registered = Date_Registered c, Incident_Date = d, Files = Files c\<rparr>"

definition DataFrame :: "string crime list \<Rightarrow> row list" where
  "DataFrame cs = map (\<lambda>c. with_incident_date c (DateStr (Incident_Date c))) cs"

text \<open>
  The text of a cell, as \<open>astype(str)\<close> and \<open>to_csv\<close> give it: a string is itself, the
  file count is in decimal, a timestamp at midnight is its date.
\<close>

fun cell_str :: "date_cell \<Rightarrow> string" where
  "cell_str (DateStr s) = s"
| "cell_str (DateTs d) = strftime_Y_m_d d"

definition row_strs :: "row \<Rightarrow> string list" where
  "row_strs r =
     [ID r, Type r, Location r, Officer r, Status r, Priority r, Description r, Notes r,
      Date_Registered r, cell_str (Incident_Date r), decimal (Files r)]"

text \<open>
  \<open>Series.str.contains(pat, case=False, na=False)\<close> leaves \<open>regex\<close> at its default
  \<open>True\<close>: the text is compiled as a regular expression with \<open>re.IGNORECASE\<close> and a
  value matches when \<open>re.search\<close> finds the expression somewhere in it. The fragment of
  the expression syntax modelled here: \<open>.\<close> is any character but a newline, a
  character that is no metacharacter is itself up to case. A text with another
  metacharacter is outside the fragment (\<open>re\<close> gives it its own meaning or raises
  \<open>re.error\<close>), and \<open>re_compile\<close> is \<open>None\<close> there.
\<close>

datatype re_item = Lit char | Dot

definition re_other_meta :: "char list" where
  "re_other_meta = [CHR ''^'', CHR ''$'', CHR ''*'', CHR ''+'', CHR ''?'', CHR ''{'', CHR ''}'',
     CHR ''['', CHR '']'', CHR 0x5C, CHR ''|'', CHR ''('', CHR '')'']"

fun re_compile :: "string \<Rightarrow> re_item list option" where
  "re_compile [] = Some []"
| "re_compile (c # cs) =
     (if c = CHR ''.'' then map_option (Cons Dot) (re_compile cs)
      else if c \<in> set re_other_meta then None
      else map_option (Cons (Lit c)) (re_compile cs))"

fun item_matches :: "re_item \<Rightarrow> char \<Rightarrow> bool" where
  "item_matches (Lit c) d = (lower_char c = lower_char d)"
| "item_matches Dot d = (d \<noteq> CHR 0x0A)"

fun match_here :: "re_item list \<Rightarrow> string \<Rightarrow> bool" where
  "match_here [] s = True"
| "match_here (i # is) [] = False"
| "match_here (i # is) (d # ds) = (item_matches i d \<and> match_here is ds)"

fun re_search :: "re_item list \<Rightarrow> string \<Rightarrow> bool" where
  "re_search p [] = match_here p []"
| "re_search p (d # ds) = (match_here p (d # ds) \<or> re_search p ds)"

datatype error = Pattern_outside_fragment | Date_not_parsed

text \<open>
  Lines 188 to 190: a row stays when the expression is found in the text of at least
  one of its cells.
\<close>

definition filter_search :: "string \<Rightarrow> row list \<Rightarrow> error + row list" where
  "filter_search search_text df =
     (if search_text \<noteq> [] then
        (case re_compile search_text of
           None \<Rightarrow> Inl Pattern_outside_fragment
         | Some p \<Rightarrow> Inr (filter (\<lambda>r. list_ex (re_search p) (row_strs r)) df))
      else Inr df)"

text \<open>Lines 192 to 202: an empty selection leaves the frame as it is.\<close>

definition filter_isin :: "(row \<Rightarrow> string) \<Rightarrow> string list \<Rightarrow> row list \<Rightarrow> row list" where
  "filter_isin col selected df = (if selected \<noteq> [] then filter (\<lambda>r. col r \<in> set selected) df else df)"

text \<open>
  Lines 204 to 210. \<open>pd.to_datetime\<close> is modelled on the strings that \<open>add_crime\<close>
  stores, a valid date written \<open>YYYY-MM-DD\<close>; on any other string the result is
  \<open>Date_not_parsed\<close> (\<open>pandas\<close> raises, or reads another format).
\<close>

definition digit_val :: "char \<Rightarrow> nat option" where
  "digit_val c =
     (let n = (of_char c :: nat) in if 48 \<le> n \<and> n \<le> 57 then Some (n - 48) else None)"

fun parse_digits :: "nat \<Rightarrow> string \<Rightarrow> nat option" where
  "parse_digits acc [] = Some acc"
| "parse_digits acc (c # cs) =
     (case digit_val c of None \<Rightarrow> None | Some v \<Rightarrow> parse_digits (10 * acc + v) cs)"

definition is_leap :: "nat \<Rightarrow> bool" where
  "is_leap y = (y mod 4 = 0 \<and> (y mod 100 \<noteq> 0 \<or> y mod 400 = 0))"

definition days_in_month :: "nat \<Rightarrow> nat \<Rightarrow> nat" where
  "days_in_month y m =
     (if m = 2 then (if is_leap y then 29 else 28)
      else if m \<in> {4, 6, 9, 11} then 30 else 31)"

definition parse_date :: "string \<Rightarrow> date option" where
  "parse_date s =
     (if length s = 10 \<and> s ! 4 = CHR ''-'' \<and> s ! 7 = CHR ''-'' then
        (case (parse_digits 0 (take 4 s), parse_digits 0 (take 2 (drop 5 s)),
               parse_digits 0 (drop 8 s)) of
           (Some y, Some m, Some d) \<Rightarrow>
             (if 1 \<le> y \<and> 1 \<le> m \<and> m \<le> 12 \<and> 1 \<le> d \<and> d \<le> days_in_month y m
              then Some \<lparr>year = y, month = m, day = d\<rparr> else None)
         | _ \<Rightarrow> None)
      else None)"

fun to_datetime :: "date_cell \<Rightarrow> date option" where
  "to_datetime (DateStr s) = parse_date s"
| "to_datetime (DateTs d) = Some d"

definition date_le :: "date \<Rightarrow> date \<Rightarrow> bool" where
  "date_le a b =
     (year a < year b \<or> (year a = year b \<and> (month a < month b \<or> (month a = month b \<and> day a \<le> day b))))"

fun convert_column :: "row list \<Rightarrow> error + row list" where
  "convert_column [] = Inr []"
| "convert_column (r # rs) =
     (case to_datetime (Incident_Date r) of
        None \<Rightarrow> Inl Date_not_parsed
      | Some d \<Rightarrow>
          (case convert_column rs of
             Inl e \<Rightarrow> Inl e
           | Inr rs' \<Rightarrow> Inr (with_incident_date r (DateTs d) # rs')))"

text \<open>The comparison of lines 208 and 209, on a converted column (no string cell is left).\<close>

definition in_date_range :: "date \<Rightarrow> date \<Rightarrow> row \<Rightarrow> bool" where
  "in_date_range start_date end_date r =
     (case Incident_Date r of
        DateTs d \<Rightarrow> date_le start_date d \<and> date_le d end_date
      | DateStr s \<Rightarrow> False)"

definition filter_date_range :: "date list \<Rightarrow> row list \<Rightarrow> error + row list" where
  "filter_date_range date_range df =
     (if date_range \<noteq> [] \<and> length date_range = 2 then
        let start_date = date_range ! 0; end_date = date_range ! 1
        in (case convert_column df of
              Inl e \<Rightarrow> Inl e
            | Inr df' \<Rightarrow>
                Inr (filter (in_date_range start_date end_date) df'))
      else Inr df)"

text \<open>The widgets of the search panel (lines 175 to 184).\<close>

record filters =
  search_text :: string
  crime_type_filter :: "string list"
  status_filter :: "string list"
  priority_filter :: "string list"
  officer_filter :: "string list"
  date_range :: "date list"

text \<open>Lines 186 to 210: the filters are applied one after the other.\<close>

definition apply_filters :: "filters \<Rightarrow> row list \<Rightarrow> error + row list" where
  "apply_filters f df =
     (case filter_search (search_text f) df of
        Inl e \<Rightarrow> Inl e
      | Inr filtered_df \<Rightarrow>
          let filtered_df = filter_isin Type (crime_type_filter f) filtered_df;
              filtered_df = filter_isin Status (status_filter f) filtered_df;
              filtered_df = filter_isin Priority (priority_filter f) filtered_df;
              filtered_df = filter_isin Officer (officer_filter f) filtered_df
          in filter_date_range (date_range f) filtered_df)"

section \<open>CSV export\<close>

text \<open>
  \<open>export_to_csv\<close> (lines 51 to 55) builds a data frame from the records it is given,
  drops the column named \<open>File\<close> if the frame is not empty and has one
  (\<open>errors='ignore'\<close>), writes the frame as CSV without the index and encodes the
  text as UTF-8. A frame is its column names and the texts of its cells, row by row.
\<close>

record frame =
  columns :: "string list"
  cells :: "string list list"

definition crime_keys :: "string list" where
  "crime_keys = [''ID'', ''Type'', ''Location'', ''Officer'', ''Status'', ''Priority'',
     ''Description'', ''Notes'', ''Date_Registered'', ''Incident_Date'', ''Files'']"

definition frame_of :: "row list \<Rightarrow> frame" where
  "frame_of data =
     (if data = [] then \<lparr>columns = [], cells = []\<rparr>
      else \<lparr>columns = crime_keys, cells = map row_strs data\<rparr>)"

definition frame_empty :: "frame \<Rightarrow> bool" where
  "frame_empty df = (columns df = [] \<or> cells df = [])"

definition drop_columns :: "string list \<Rightarrow> frame \<Rightarrow> frame" where
  "drop_columns names df =
     (let keep = map (\<lambda>c. c \<notin> set names) (columns df)
      in \<lparr>columns = map snd (filter fst (zip keep (columns df))),
          cells = map (\<lambda>r. map snd (filter fst (zip keep r))) (cells df)\<rparr>)"

text \<open>
  The CSV writer quotes a field that holds a comma, a double quote, a carriage return
  or a line feed, doubling the double quotes in it; every line ends with a line feed.
\<close>

definition csv_field :: "string \<Rightarrow> string" where
  "csv_field s =
     (if list_ex (\<lambda>c. c \<in> {CHR '','', CHR 0x22, CHR 0x0D, CHR 0x0A}) s
      then [CHR 0x22] @ concat (map (\<lambda>c. if c = CHR 0x22 then [CHR 0x22, CHR 0x22] else [c]) s) @ [CHR 0x22]
      else s)"

fun join_comma :: "string list \<Rightarrow> string" where
  "join_comma [] = []"
| "join_comma [x] = x"
| "join_comma (x # y # ys) = x @ '','' @ join_comma (y # ys)"

definition csv_line :: "string list \<Rightarrow> string" where
  "csv_line values = join_comma (map csv_field values) @ [CHR 0x0A]"

definition to_csv :: "frame \<Rightarrow> string" where
  "to_csv df = csv_line (columns df) @ concat (map csv_line (cells df))"

definition encode_utf8 :: "string \<Rightarrow> bytes" where
  "encode_utf8 s =
     concat (map (\<lambda>c. let n = (of_char c :: nat)
                       in if n < 128 then [of_nat n] else [of_nat (192 + n div 64), of_nat (128 + n mod 64)]) s)"

definition csv_text :: "row list \<Rightarrow> string" where
  "csv_text data =
     (let df = frame_of data;
          df = (if \<not> frame_empty df then drop_columns [''File''] df else df)
      in to_csv df)"

definition export_to_csv :: "row list \<Rightarrow> bytes" where
  "export_to_csv data = encode_utf8 (csv_text data)"

text \<open>
  \<open>view_crimes\<close> (lines 162 to 262) returns at once when the session has no record.
  Otherwise it filters the frame and shows the rows left; when there is one at
  least it offers them as CSV. What it draws for each row is left out.
\<close>

datatype view = No_cases_found | Showing "row list" "bytes option"

definition view_crimes :: "filters \<Rightarrow> session \<Rightarrow> error + view" where
  "view_crimes f s =
     (if crimes s = [] then Inr No_cases_found
      else
        (case apply_filters f (DataFrame (crimes s)) of
           Inl e \<Rightarrow> Inl e
         | Inr filtered_df \<Rightarrow>
             Inr (Showing filtered_df
                    (if filtered_df \<noteq> [] then Some (export_to_csv filtered_df) else None))))"

section \<open>Statistics\<close>

text \<open>
  \<open>Series.unique()\<close> keeps the first occurrence of every value.
\<close>

definition unique :: "'a list \<Rightarrow> 'a list" where
  "unique xs = rev (remdups (rev xs))"

record metrics =
  total_cases :: nat
  open_cases :: nat
  high_priority :: nat
  avg_cases :: rat

text \<open>
  \<open>crime_statistics\<close> (lines 264 to 339) returns at once, with a message and no metric,
  when the session has no record (lines 267 to 269); \<open>None\<close> is that return. Otherwise
  it shows the four metrics of lines 275 to 285 (the charts that follow are left out).
  The local \<open>avg_cases_per_officer\<close> of line 284 exists on this path only, where the
  frame has at least one row and its column \<open>Officer\<close>. Line 284 divides two integers
  with \<open>/\<close>; the quotient is kept exact here, as a rational number, where Python
  rounds it to the nearest float.
\<close>

definition crime_statistics :: "session \<Rightarrow> metrics option" where
  "crime_statistics s =
     (if crimes s = [] then None
      else
        let df = DataFrame (crimes s);
            avg_cases_per_officer =
              (if length (unique (map Officer df)) > 0
               then of_nat (length df) / of_nat (length (unique (map Officer df)))
               else 0)
        in Some \<lparr>total_cases = length df,
                 open_cases = length (filter (\<lambda>r. Status r = ''Open'') df),
                 high_priority = length (filter (\<lambda>r. Priority r = ''High'') df),
                 avg_cases = avg_cases_per_officer\<rparr>)"

section \<open>Settings: clearing and backing up\<close>

text \<open>
  Lines 359 to 364: when the button and the checkbox inside it are both on, the
  records and the attachment index are replaced by empty ones.
\<close>

definition clear_all_data :: "bool \<Rightarrow> bool \<Rightarrow> session \<Rightarrow> session" where
  "clear_all_data button checkbox s =
     (if button then
        (if checkbox then s\<lparr>crimes := [], uploaded_files := Map.empty\<rparr> else s)
      else s)"

text \<open>
  Lines 367 to 373: the dictionary handed to \<open>json.dumps\<close>, as a JSON value. It is built
  only when the session has a record.
\<close>

datatype json = JString string | JInt int | JArray "json list" | JObject "(string \<times> json) list"

definition crime_json :: "string crime \<Rightarrow> json" where
  "crime_json c =
     JObject [(''ID'', JString (ID c)), (''Type'', JString (Type c)),
       (''Location'', JString (Location c)), (''Officer'', JString (Officer c)),
       (''Status'', JString (Status c)), (''Priority'', JString (Priority c)),
       (''Description'', JString (Description c)), (''Notes'', JString (Notes c)),
       (''Date_Registered'', JString (Date_Registered c)),
       (''Incident_Date'', JString (Incident_Date c)), (''Files'', JInt (int (Files c)))]"

definition backup_data :: "datetime \<Rightarrow> session \<Rightarrow> json option" where
  "backup_data now s =
     (if crimes s \<noteq> [] then
        Some (JObject [(''crimes'', JArray (map crime_json (crimes s))),
                       (''officers'', JArray (map JString (officers s))),
                       (''export_date'', JString (isoformat now))])
      else None)"

definition object_keys :: "json \<Rightarrow> string list" where
  "object_keys j = (case j of JObject kvs \<Rightarrow> map fst kvs | _ \<Rightarrow> [])"

section \<open>Predicates the properties are stated with\<close>

text \<open>
  The values \<open>datetime.date\<close> and \<open>datetime.datetime\<close> can hold: the year from 1 to
  9999, a month and a day of that month, a time of day.
\<close>

definition valid_date :: "'a date_scheme \<Rightarrow> bool" where
  "valid_date d =
     (1 \<le> year d \<and> year d \<le> 9999 \<and> 1 \<le> month d \<and> month d \<le> 12 \<and>
      1 \<le> day d \<and> day d \<le> days_in_month (year d) (month d))"

definition valid_datetime :: "'a datetime_scheme \<Rightarrow> bool" where
  "valid_datetime t =
     (valid_date t \<and> hour t < 24 \<and> minute t < 60 \<and> second t < 60 \<and> microsecond t < 1000000)"

definition is_digit :: "char \<Rightarrow> bool" where
  "is_digit c = (48 \<le> (of_char c :: nat) \<and> (of_char c :: nat) \<le> 57)"

definition is_upper_alnum :: "char \<Rightarrow> bool" where
  "is_upper_alnum c = (is_digit c \<or> (65 \<le> (of_char c :: nat) \<and> (of_char c :: nat) \<le> 90))"

text \<open>
  The identifier format \<open>CASE-<8-digit date>-<6-char uppercase alphanumeric>\<close>: twenty
  characters, the prefix, eight digits, a hyphen, six upper-case letters or digits.
\<close>

definition is_case_id :: "string \<Rightarrow> bool" where
  "is_case_id s =
     (length s = 20 \<and> take 5 s = ''CASE-'' \<and> list_all is_digit (take 8 (drop 5 s)) \<and>
      s ! 13 = CHR ''-'' \<and> list_all is_upper_alnum (drop 14 s))"

text \<open>
  An ISO-8601 timestamp \<open>YYYY-MM-DDTHH:MM:SS\<close>, with or without a fraction of six
  digits.
\<close>

definition is_iso8601 :: "string \<Rightarrow> bool" where
  "is_iso8601 s =
     ((length s = 19 \<or> length s = 26) \<and>
      list_all is_digit (take 4 s) \<and> s ! 4 = CHR ''-'' \<and>
      list_all is_digit (take 2 (drop 5 s)) \<and> s ! 7 = CHR ''-'' \<and>
      list_all is_digit (take 2 (drop 8 s)) \<and> s ! 10 = CHR ''T'' \<and>
      list_all is_digit (take 2 (drop 11 s)) \<and> s ! 13 = CHR '':'' \<and>
      list_all is_digit (take 2 (drop 14 s)) \<and> s ! 16 = CHR '':'' \<and>
      list_all is_digit (take 2 (drop 17 s)) \<and>
      (if length s = 26 then s ! 19 = CHR ''.'' \<and> list_all is_digit (drop 20 s) else True))"

text \<open>
  Following the specification's words for the free-text filter: the search text taken
  as plain text, found somewhere in a value, letter case apart.
\<close>

definition literal_search :: "string \<Rightarrow> string \<Rightarrow> bool" where
  "literal_search s v = re_search (map Lit s) v"

definition lookup_key :: "string \<Rightarrow> json \<Rightarrow> json option" where
  "lookup_key k j = (case j of JObject kvs \<Rightarrow> map_of kvs k | _ \<Rightarrow> None)"

definition is_object :: "json \<Rightarrow> bool" where
  "is_object j = (case j of JObject kvs \<Rightarrow> True | _ \<Rightarrow> False)"

text \<open>Sample values the properties are evaluated at.\<close>

definition sample_now :: datetime where
  "sample_now = \<lparr>year = 2024, month = 3, day = 7, hour = 1, minute = 2, second = 3, microsecond = 0\<rparr>"

definition sample_crime :: "string crime" where
  "sample_crime =
     \<lparr>ID = ''CASE-20240307-A1B2C3'', Type = ''Theft'', Location = ''5th Ave'',
      Officer = ''Officer Smith'', Status = ''Open'', Priority = ''Medium'',
      Description = ''Stolen bicycle from porch'', Notes = [],
      Date_Registered = ''2024-03-07 01:02:03'', Incident_Date = ''2024-03-07'', Files = 0\<rparr>"

definition sample_closed :: "string crime" where
  "sample_closed = sample_crime\<lparr>ID := ''CASE-20240308-0F9E8D'', Officer := ''Officer Brown'',
     Status := ''Closed''\<rparr>"

definition sample_session :: session where
  "sample_session =
     \<lparr>crimes = [sample_crime, sample_closed],
      uploaded_files = Map.empty,
      officers = default_officers @ [''Officer Lee'']\<rparr>"

definition sample_form :: crime_form where
  "sample_form =
     \<lparr>form_crime_type = ''Theft'', form_location = ''5th Ave'', form_priority = ''Medium'',
      form_officer = ''Officer Smith'', form_status = ''Open'',
      form_incident_date = \<lparr>year = 2024, month = 3, day = 7\<rparr>,
      form_description = ''Stolen bicycle from porch'', form_file_upload = [],
      form_notes = [], form_submitted = True\<rparr>"

definition sample_env :: environment where
  "sample_env = \<lparr>now_for_id = sample_now, uuid4 = 0, now_for_record = sample_now\<rparr>"

definition sample_world :: world where
  "sample_world = \<lparr>session_state = sample_session, disk = \<lparr>dirs = [], files = Map.empty\<rparr>\<rparr>"

definition no_filters :: filters where
  "no_filters =
     \<lparr>search_text = [], crime_type_filter = [], status_filter = [], priority_filter = [],
      officer_filter = [], date_range = []\<rparr>"

section \<open>Validation\<close>

text \<open>
  Claim C5. For every tuple (crime type, location, officer, description) the validation
  returns the empty list exactly when the crime type is non-empty, the location is
  non-empty with at least 2 characters after trimming, the officer is non-empty and
  the description is non-empty with at least 10 characters after trimming. The four
  rules are checked independently: the number of messages is the number of rules
  violated. A tuple violating exactly one rule yields exactly the one message that
  names the field of that rule.
\<close>

theorem validation_rules:
  "(validate_form_data ct loc off desc = [] \<longleftrightarrow>
      ct \<noteq> [] \<and> (loc \<noteq> [] \<and> 2 \<le> length (strip loc)) \<and> off \<noteq> [] \<and>
      (desc \<noteq> [] \<and> 10 \<le> length (strip desc))) \<and>
   length (validate_form_data ct loc off desc) =
      (if ct = [] then 1 else 0) + (if loc = [] \<or> length (strip loc) < 2 then 1 else 0) +
      (if off = [] then 1 else 0) + (if desc = [] \<or> length (strip desc) < 10 then 1 else 0) \<and>
   (ct = [] \<and> (loc \<noteq> [] \<and> 2 \<le> length (strip loc)) \<and> off \<noteq> [] \<and>
      (desc \<noteq> [] \<and> 10 \<le> length (strip desc)) \<longrightarrow>
      validate_form_data ct loc off desc = [''Crime type is required'']) \<and>
   (ct \<noteq> [] \<and> (loc = [] \<or> length (strip loc) < 2) \<and> off \<noteq> [] \<and>
      (desc \<noteq> [] \<and> 10 \<le> length (strip desc)) \<longrightarrow>
      validate_form_data ct loc off desc = [''Location must be at least 2 characters long'']) \<and>
   (ct \<noteq> [] \<and> (loc \<noteq> [] \<and> 2 \<le> length (strip loc)) \<and> off = [] \<and>
      (desc \<noteq> [] \<and> 10 \<le> length (strip desc)) \<longrightarrow>
      validate_form_data ct loc off desc = [''Officer assignment is required'']) \<and>
   (ct \<noteq> [] \<and> (loc \<noteq> [] \<and> 2 \<le> length (strip loc)) \<and> off \<noteq> [] \<and>
      (desc = [] \<or> length (strip desc) < 10) \<longrightarrow>
      validate_form_data ct loc off desc = [''Description must be at least 10 characters long''])"
  by (simp add: validate_form_data_def Let_def not_le)

lemma strip_samples:
  "length (strip ''123456789'') = 9" "length (strip ''5th Ave'') = 7" "length (strip ''short'') = 5"
  by code_simp+

theorem validation_rules_witness:
  "validate_form_data ''Theft'' ''5th Ave'' ''Officer Smith'' ''123456789'' =
     [''Description must be at least 10 characters long'']"
  using validation_rules [of "''Theft''" "''5th Ave''" "''Officer Smith''" "''123456789''"]
  by (simp add: strip_samples)

section \<open>A rejected form\<close>

text \<open>
  Claim C4. If the validation of a submitted form fails, \<open>add_crime\<close> only reports the
  messages: the record store, the attachment index, the officers and the upload
  directory are what they were, and no file is written.
\<close>

theorem rejected_form_changes_nothing:
  assumes "form_submitted form"
    and "validate_form_data (form_crime_type form) (form_location form)
           (form_officer form) (form_description form) \<noteq> []"
  shows "add_crime env form w =
           (Rejected (validate_form_data (form_crime_type form) (form_location form)
              (form_officer form) (form_description form)), w)"
  using assms by (simp add: add_crime_def Let_def)

theorem rejected_form_changes_nothing_witness:
  "add_crime sample_env (sample_form\<lparr>form_description := ''short''\<rparr>) sample_world =
     (Rejected [''Description must be at least 10 characters long''], sample_world)"
proof -
  let ?f = "sample_form\<lparr>form_description := ''short''\<rparr>"
  have v: "validate_form_data (form_crime_type ?f) (form_location ?f) (form_officer ?f)
             (form_description ?f) = [''Description must be at least 10 characters long'']"
    by (simp add: validate_form_data_def sample_form_def strip_samples)
  have s: "form_submitted ?f" by (simp add: sample_form_def)
  from rejected_form_changes_nothing [OF s, of sample_env sample_world] v
  show ?thesis by simp
qed

section \<open>Filters\<close>

lemma DataFrame_Nil_iff: "DataFrame cs = [] \<longleftrightarrow> cs = []"
  by (simp add: DataFrame_def)

text \<open>
  Claim C7. With the status selection \<open>Open\<close> and every other filter empty, the filters
  of \<open>view_crimes\<close> return exactly the rows whose status is \<open>Open\<close>, in their order;
  every row of another status is left out. On a session with records these are the
  rows the view shows.
\<close>

theorem status_filter_open:
  "apply_filters (no_filters\<lparr>status_filter := [''Open'']\<rparr>) df =
     Inr (filter (\<lambda>r. Status r = ''Open'') df) \<and>
   (crimes s \<noteq> [] \<longrightarrow>
     (\<exists>csv. view_crimes (no_filters\<lparr>status_filter := [''Open'']\<rparr>) s =
        Inr (Showing (filter (\<lambda>r. Status r = ''Open'') (DataFrame (crimes s))) csv)))"
  by (simp add: view_crimes_def apply_filters_def no_filters_def filter_search_def
      filter_isin_def filter_date_range_def)

theorem status_filter_open_witness:
  "apply_filters (no_filters\<lparr>status_filter := [''Open'']\<rparr>)
      (DataFrame [sample_crime, sample_closed, sample_crime]) =
     Inr (DataFrame [sample_crime, sample_crime])"
  using status_filter_open [of "DataFrame [sample_crime, sample_closed, sample_crime]" sample_session]
  by (simp add: DataFrame_def with_incident_date_def sample_crime_def sample_closed_def)

text \<open>
  Claim C8. With an empty search text, empty selections of crime type, status, priority
  and officer, and no date range, the filters return the rows they were given,
  unchanged and in the same order. On a session with records the view shows every
  record.
\<close>

theorem empty_filters_identity:
  "apply_filters no_filters df = Inr df \<and>
   (crimes s \<noteq> [] \<longrightarrow>
      view_crimes no_filters s =
        Inr (Showing (DataFrame (crimes s)) (Some (export_to_csv (DataFrame (crimes s))))))"
  by (simp add: view_crimes_def apply_filters_def no_filters_def filter_search_def
      filter_isin_def filter_date_range_def DataFrame_Nil_iff)

theorem empty_filters_identity_witness:
  "view_crimes no_filters sample_session =
     Inr (Showing (DataFrame [sample_crime, sample_closed])
            (Some (export_to_csv (DataFrame [sample_crime, sample_closed]))))"
  using empty_filters_identity [of "[]" sample_session]
  by (simp add: sample_session_def)

section \<open>Average cases per officer\<close>

lemma length_unique: "length (unique xs) = card (set xs)"
  by (simp add: unique_def length_remdups_card_conv)

lemma Officer_DataFrame: "map Officer (DataFrame cs) = map Officer cs"
  by (simp add: DataFrame_def with_incident_date_def)

text \<open>
  Claim C9 as first written says that the average is 0 when there are no records. It
  fails on the session that \<open>initialize_session_state\<close> builds from nothing: there
  \<open>crime_statistics\<close> returns at line 269, so its result is \<open>None\<close> and not a
  record of metrics whose average is 0.
\<close>

theorem average_no_records_counterexample:
  "map_option avg_cases
     (crime_statistics
        (initialize_session_state
           \<lparr>raw_crimes = None, raw_uploaded_files = None, raw_officers = None\<rparr>)) \<noteq> Some 0"
  by (simp add: crime_statistics_def initialize_session_state_def)

text \<open>
  Claim C9 (as amended). For every session with at least one record the statistic
  ``average cases per officer'' is the number of records divided by the number of
  distinct officers in them (4 records of 2 officers give 2). For a session with no
  record \<open>crime_statistics\<close> shows no statistic at all: the value 0 of line 284's
  guard is never shown.
\<close>

theorem average_cases_statistic:
  "(crimes s \<noteq> [] \<longrightarrow>
      map_option avg_cases (crime_statistics s) =
        Some (of_nat (length (crimes s)) / of_nat (card (Officer ` set (crimes s))))) \<and>
   (crimes s = [] \<longrightarrow> crime_statistics s = None)"
proof -
  have "set (map Officer (DataFrame (crimes s))) = set (map Officer (crimes s))"
    by (simp only: Officer_DataFrame)
  then have img: "Officer ` set (DataFrame (crimes s)) = Officer ` set (crimes s)"
    by simp
  have len: "length (DataFrame (crimes s)) = length (crimes s)"
    by (simp add: DataFrame_def)
  have pos: "card (Officer ` set (crimes s)) > 0" if "crimes s \<noteq> []"
    using that by (simp add: card_gt_0_iff)
  show ?thesis
    using pos
    by (simp add: crime_statistics_def Let_def length_unique img len)
qed

theorem average_cases_statistic_witness:
  "map_option avg_cases
     (crime_statistics
        (sample_session\<lparr>crimes := [sample_crime, sample_closed, sample_crime, sample_closed]\<rparr>))
     = Some 2 \<and>
   crime_statistics (sample_session\<lparr>crimes := []\<rparr>) = None"
  using average_cases_statistic
      [of "sample_session\<lparr>crimes := [sample_crime, sample_closed, sample_crime, sample_closed]\<rparr>"]
    average_cases_statistic [of "sample_session\<lparr>crimes := []\<rparr>"]
  by (simp add: sample_crime_def sample_closed_def card_insert_if)

section \<open>Clearing the data\<close>

text \<open>
  Claim C10. Clearing all data leaves the officers as they were, every name in the same
  place, whatever the button and the checkbox are; when both are on, the records and
  the attachment index are empty afterwards.
\<close>

theorem clear_keeps_officers:
  "officers (clear_all_data button checkbox s) = officers s \<and>
   crimes (clear_all_data True True s) = [] \<and>
   uploaded_files (clear_all_data True True s) = Map.empty"
  by (simp add: clear_all_data_def)

theorem clear_keeps_officers_witness:
  "officers (clear_all_data True True sample_session) = default_officers @ [''Officer Lee''] \<and>
   crimes (clear_all_data True True sample_session) = []"
  using clear_keeps_officers [of True True sample_session]
  by (simp add: sample_session_def)

section \<open>The identifier of a registered case\<close>

lemma below_16_cases:
  "n < 16 \<Longrightarrow> (n::nat) \<in> set [0, 1, 2, 3, 4, 5, 6, 7, 8, 9, 10, 11, 12, 13, 14, 15]"
  by simp arith

lemma digit_char_is_digit: "n < 10 \<Longrightarrow> is_digit (digit_char n)"
proof -
  assume a: "n < 10"
  then have "n < 16" by simp
  then have "n \<in> set [0, 1, 2, 3, 4, 5, 6, 7, 8, 9, 10, 11, 12, 13, 14, 15]"
    by (rule below_16_cases)
  with a show ?thesis
    by (auto simp: digit_char_def is_digit_def)
qed

lemma upper_hex_digit: "n < 16 \<Longrightarrow> is_upper_alnum (upper_char (digit_char n))"
  by (drule below_16_cases)
     (auto simp: digit_char_def is_upper_alnum_def is_digit_def upper_char_def)

lemma decimal_digits: "list_all is_digit (decimal n)"
proof (induction n rule: decimal.induct)
  case (1 n)
  show ?case
  proof (cases "n < 10")
    case True
    then show ?thesis by (simp add: decimal.simps [of n] digit_char_is_digit)
  next
    case False
    with 1 show ?thesis by (simp add: decimal.simps [of n] digit_char_is_digit)
  qed
qed

lemma decimal_length: "n < 10 ^ k \<Longrightarrow> 0 < k \<Longrightarrow> length (decimal n) \<le> k"
proof (induction n arbitrary: k rule: decimal.induct)
  case (1 n)
  show ?case
  proof (cases "n < 10")
    case True
    with 1(3) show ?thesis by (simp add: decimal.simps [of n])
  next
    case False
    then obtain j where k: "k = Suc j" using 1(3) by (cases k) auto
    from False 1(2) k have j: "0 < j" by (cases j) auto
    from 1(2) k have "n div 10 < 10 ^ j" by (simp add: less_mult_imp_div_less mult.commute)
    with 1(1) [OF False _ j] have "length (decimal (n div 10)) \<le> j" by simp
    with False k show ?thesis by (simp add: decimal.simps [of n])
  qed
qed

lemma zfill_length: "length s \<le> w \<Longrightarrow> length (zfill w s) = w"
  by (simp add: zfill_def)

lemma zfill_digits: "list_all is_digit s \<Longrightarrow> list_all is_digit (zfill w s)"
  by (auto simp: zfill_def list_all_iff is_digit_def)

lemma zfill_decimal:
  "n < 10 ^ k \<Longrightarrow> 0 < k \<Longrightarrow>
     length (zfill k (decimal n)) = k \<and> list_all is_digit (zfill k (decimal n))"
  by (simp add: zfill_length decimal_length zfill_digits decimal_digits)

lemma hex32_length: "length (hex32 n) = 32"
  by (simp add: hex32_def)

lemma hex32_upper: "list_all is_upper_alnum (upper (take k (hex32 n)))"
  by (auto simp: hex32_def upper_def list_all_iff upper_hex_digit dest!: in_set_takeD)

lemma uuid_prefix: "take 6 (uuid_str u) = take 6 (hex32 (unat u))"
  by (simp add: uuid_str_def Let_def hex32_length)

lemma strftime_Ymd_digits:
  assumes "year d \<le> 9999" and "month d \<le> 12" and "day d \<le> 31"
  shows "length (strftime_Ymd d) = 8 \<and> list_all is_digit (strftime_Ymd d)"
proof -
  have y: "length (zfill 4 (decimal (year d))) = 4 \<and> list_all is_digit (zfill 4 (decimal (year d)))"
    using assms(1) by (intro zfill_decimal) simp_all
  have m: "length (zfill 2 (decimal (month d))) = 2 \<and> list_all is_digit (zfill 2 (decimal (month d)))"
    using assms(2) by (intro zfill_decimal) simp_all
  have a: "length (zfill 2 (decimal (day d))) = 2 \<and> list_all is_digit (zfill 2 (decimal (day d)))"
    using assms(3) by (intro zfill_decimal) simp_all
  from y m a show ?thesis by (simp add: strftime_Ymd_def)
qed

lemma case_id_shape:
  assumes "length D = 8" and "length H = 6"
    and "list_all is_digit D" and "list_all is_upper_alnum H"
  shows "is_case_id (''CASE-'' @ D @ ''-'' @ H)"
  using assms by (simp add: is_case_id_def nth_append)

lemma days_in_month_le: "days_in_month y m \<le> 31"
  by (simp add: days_in_month_def)

lemma generate_crime_id_format:
  assumes "valid_date now"
  shows "is_case_id (generate_crime_id now u)"
proof -
  from assms have "year now \<le> 9999" "month now \<le> 12" "day now \<le> 31"
    using days_in_month_le [of "year now" "month now"] by (simp_all add: valid_date_def)
  then have d: "length (strftime_Ymd now) = 8 \<and> list_all is_digit (strftime_Ymd now)"
    by (rule strftime_Ymd_digits)
  have h: "length (upper (take 6 (uuid_str u))) = 6"
    by (simp add: uuid_prefix upper_def hex32_length)
  have a: "list_all is_upper_alnum (upper (take 6 (uuid_str u)))"
    by (simp only: uuid_prefix hex32_upper)
  from d h a show ?thesis
    unfolding generate_crime_id_def by (intro case_id_shape) simp_all
qed

lemma add_crime_registered:
  assumes "add_crime env form w = (Registered cid, w')"
  shows "cid = generate_crime_id (now_for_id env) (uuid4 env) \<and>
         (\<exists>r. crimes (session_state w') = crimes (session_state w) @ [r] \<and> ID r = cid)"
  using assms
  by (auto simp: add_crime_def Let_def split: if_splits prod.splits)

text \<open>
  Claim C6. Whenever a registration succeeds, the identifier of the new record (the
  one shown, and the \<open>ID\<close> of the record appended to the store) has the format
  \<open>CASE-\<close>, eight decimal digits, a hyphen, then six characters each an upper-case
  letter or a digit. The clock is read as a date \<open>datetime\<close> can hold, of a year of four
  digits (a C library that does not pad shorter years with zeros needs it).
\<close>

theorem registered_id_format:
  assumes "valid_date (now_for_id env)" and "1000 \<le> year (now_for_id env)"
    and "add_crime env form w = (Registered cid, w')"
  shows "is_case_id cid \<and>
         (\<exists>r. crimes (session_state w') = crimes (session_state w) @ [r] \<and> ID r = cid)"
  using add_crime_registered [OF assms(3)] generate_crime_id_format [OF assms(1), of "uuid4 env"]
  by auto

lemma add_crime_accepts:
  assumes "form_submitted form"
    and "validate_form_data (form_crime_type form) (form_location form)
           (form_officer form) (form_description form) = []"
  shows "\<exists>w'. add_crime env form w =
           (Registered (generate_crime_id (now_for_id env) (uuid4 env)), w')"
  using assms by (simp add: add_crime_def Let_def split: prod.splits)

lemma strip_sample_description: "length (strip ''Stolen bicycle from porch'') = 25"
  by code_simp

lemma sample_form_valid:
  "validate_form_data (form_crime_type sample_form) (form_location sample_form)
     (form_officer sample_form) (form_description sample_form) = []"
  by (simp add: sample_form_def validate_form_data_def strip_samples strip_sample_description)

lemma hex32_zero: "hex32 0 = replicate 32 (CHR ''0'')"
  by (simp add: hex32_def digit_char_def map_replicate_const)

lemma sample_uuid_prefix: "upper (take 6 (uuid_str 0)) = ''000000''"
proof -
  have "take 6 (uuid_str 0) = replicate 6 (CHR ''0'')"
    by (simp add: uuid_prefix hex32_zero)
  also have "\<dots> = ''000000''"
    by (simp add: numeral_eq_Suc)
  finally show ?thesis
    by (simp add: upper_def upper_char_def)
qed

lemma sample_decimals: "decimal 2024 = ''2024''" "decimal 3 = ''3''" "decimal 7 = ''7''"
  by (simp_all add: decimal.simps [of 2024] decimal.simps [of 202] decimal.simps [of 20]
      decimal.simps [of 2] decimal.simps [of 3] decimal.simps [of 7] digit_char_def)

lemma sample_date: "strftime_Ymd sample_now = ''20240307''"
  by (simp add: strftime_Ymd_def sample_now_def sample_decimals zfill_def)

lemma sample_id: "generate_crime_id sample_now 0 = ''CASE-20240307-000000''"
  by (simp add: generate_crime_id_def sample_uuid_prefix sample_date)

lemma sample_env_reads: "now_for_id sample_env = sample_now" "uuid4 sample_env = 0"
  by (simp_all add: sample_env_def)

theorem registered_id_format_witness:
  "fst (add_crime sample_env sample_form sample_world) = Registered ''CASE-20240307-000000'' \<and>
   is_case_id ''CASE-20240307-000000''"
proof -
  have v: "valid_date (now_for_id sample_env)"
    by (simp add: valid_date_def sample_env_def sample_now_def days_in_month_def)
  have y: "1000 \<le> year (now_for_id sample_env)"
    by (simp add: sample_env_def sample_now_def)
  have s: "form_submitted sample_form"
    by (simp add: sample_form_def)
  from add_crime_accepts [OF s sample_form_valid, of sample_env sample_world]
  obtain w' where r: "add_crime sample_env sample_form sample_world =
      (Registered (generate_crime_id (now_for_id sample_env) (uuid4 sample_env)), w')"
    by (rule exE)
  have i: "generate_crime_id (now_for_id sample_env) (uuid4 sample_env) = ''CASE-20240307-000000''"
    by (simp only: sample_env_reads sample_id)
  from registered_id_format [OF v y r]
  have "is_case_id (generate_crime_id (now_for_id sample_env) (uuid4 sample_env))"
    by (rule conjunct1)
  then have c: "is_case_id ''CASE-20240307-000000''"
    by (simp only: i)
  from r have "fst (add_crime sample_env sample_form sample_world) =
      Registered (generate_crime_id (now_for_id sample_env) (uuid4 sample_env))"
    by (simp only: fst_conv)
  then have f: "fst (add_crime sample_env sample_form sample_world) = Registered ''CASE-20240307-000000''"
    by (simp only: i)
  from f c show ?thesis by (rule conjI)
qed

section \<open>The backup document\<close>

lemma iso_shape:
  assumes "length Y = 4" "length M = 2" "length D = 2" "length h = 2" "length m = 2" "length s = 2"
    and "list_all is_digit Y" "list_all is_digit M" "list_all is_digit D"
    and "list_all is_digit h" "list_all is_digit m" "list_all is_digit s"
    and "F = [] \<or> (\<exists>G. F = ''.'' @ G \<and> length G = 6 \<and> list_all is_digit G)"
  shows "is_iso8601 (Y @ ''-'' @ M @ ''-'' @ D @ ''T'' @ h @ '':'' @ m @ '':'' @ s @ F)"
  using assms by (auto simp: is_iso8601_def nth_append)

lemma isoformat_iso8601:
  assumes "valid_datetime t"
  shows "is_iso8601 (isoformat t)"
proof -
  from assms have b: "year t \<le> 9999" "month t \<le> 12" "day t \<le> 31"
      "hour t < 24" "minute t < 60" "second t < 60" "microsecond t < 1000000"
    using days_in_month_le [of "year t" "month t"]
    by (simp_all add: valid_datetime_def valid_date_def)
  have Y: "length (zfill 4 (decimal (year t))) = 4 \<and> list_all is_digit (zfill 4 (decimal (year t)))"
    using b(1) by (intro zfill_decimal) simp_all
  have M: "length (zfill 2 (decimal (month t))) = 2 \<and> list_all is_digit (zfill 2 (decimal (month t)))"
    using b(2) by (intro zfill_decimal) simp_all
  have D: "length (zfill 2 (decimal (day t))) = 2 \<and> list_all is_digit (zfill 2 (decimal (day t)))"
    using b(3) by (intro zfill_decimal) simp_all
  have h: "length (zfill 2 (decimal (hour t))) = 2 \<and> list_all is_digit (zfill 2 (decimal (hour t)))"
    using b(4) by (intro zfill_decimal) simp_all
  have m: "length (zfill 2 (decimal (minute t))) = 2 \<and> list_all is_digit (zfill 2 (decimal (minute t)))"
    using b(5) by (intro zfill_decimal) simp_all
  have s: "length (zfill 2 (decimal (second t))) = 2 \<and> list_all is_digit (zfill 2 (decimal (second t)))"
    using b(6) by (intro zfill_decimal) simp_all
  have u: "length (zfill 6 (decimal (microsecond t))) = 6 \<and>
      list_all is_digit (zfill 6 (decimal (microsecond t)))"
    using b(7) by (intro zfill_decimal) simp_all
  have "is_iso8601
     (zfill 4 (decimal (year t)) @ ''-'' @ zfill 2 (decimal (month t)) @ ''-'' @
      zfill 2 (decimal (day t)) @ ''T'' @ zfill 2 (decimal (hour t)) @ '':'' @
      zfill 2 (decimal (minute t)) @ '':'' @ zfill 2 (decimal (second t)) @
      (if microsecond t = 0 then [] else ''.'' @ zfill 6 (decimal (microsecond t))))"
    using Y M D h m s u by (intro iso_shape) simp_all
  then show ?thesis
    by (simp add: isoformat_def strftime_Y_m_d_def strftime_H_M_S_def)
qed

text \<open>
  Claim C2 as first written says that, for every state of the store, the backup is an
  object with the keys \<open>records\<close>, \<open>officers\<close> and \<open>exportDate\<close>. The dictionary of
  lines 368 to 372 has other keys: on the sample session they are \<open>crimes\<close>,
  \<open>officers\<close> and \<open>export_date\<close>. And line 367 builds it only when the store holds a
  record: on the sample session without its records there is no document.
\<close>

theorem backup_keys_counterexample:
  "map_option (set \<circ> object_keys) (backup_data sample_now sample_session) \<noteq>
     Some {''records'', ''officers'', ''exportDate''} \<and>
   backup_data sample_now (sample_session\<lparr>crimes := []\<rparr>) = None"
proof -
  have k: "map_option (set \<circ> object_keys) (backup_data sample_now sample_session) =
      Some {''crimes'', ''officers'', ''export_date''}"
    by (simp add: backup_data_def sample_session_def object_keys_def)
  have a: "''crimes'' \<in> {''crimes'', ''officers'', ''export_date''}"
    by simp
  have b: "''crimes'' \<notin> {''records'', ''officers'', ''exportDate''}"
    by simp
  have n: "{''crimes'', ''officers'', ''export_date''} \<noteq> {''records'', ''officers'', ''exportDate''}"
  proof
    assume e: "{''crimes'', ''officers'', ''export_date''} = {''records'', ''officers'', ''exportDate''}"
    from a have "''crimes'' \<in> {''records'', ''officers'', ''exportDate''}"
      unfolding e .
    with b show False ..
  qed
  have e: "backup_data sample_now (sample_session\<lparr>crimes := []\<rparr>) = None"
    by (simp add: backup_data_def)
  from k n e show ?thesis
    by (simp only: option.inject simp_thms)
qed

text \<open>
  Claim C2 (as amended). For every state of the store with at least one record, the
  backup document is an object whose keys are exactly \<open>crimes\<close> (the array of the
  record objects, in order), \<open>officers\<close> (the array of the officer names) and
  \<open>export_date\<close> (a string, an ISO-8601 timestamp when the clock gives a date and time
  that \<open>datetime\<close> can hold); when the store has no record no document is built.
\<close>

theorem backup_document:
  "(crimes s \<noteq> [] \<and> valid_datetime now \<longrightarrow>
      (\<exists>j. backup_data now s = Some j \<and> is_object j \<and>
           object_keys j = [''crimes'', ''officers'', ''export_date''] \<and>
           lookup_key ''crimes'' j = Some (JArray (map crime_json (crimes s))) \<and>
           lookup_key ''officers'' j = Some (JArray (map JString (officers s))) \<and>
           (\<exists>t. lookup_key ''export_date'' j = Some (JString t) \<and> is_iso8601 t))) \<and>
   (crimes s = [] \<longrightarrow> backup_data now s = None)"
  using isoformat_iso8601 [of now]
  by (simp add: backup_data_def is_object_def object_keys_def lookup_key_def)

theorem backup_document_witness:
  "crimes sample_session \<noteq> [] \<and> valid_datetime sample_now \<and>
   map_option object_keys (backup_data sample_now sample_session) =
     Some [''crimes'', ''officers'', ''export_date''] \<and>
   is_iso8601 (isoformat sample_now) \<and>
   backup_data sample_now (sample_session\<lparr>crimes := []\<rparr>) = None"
  using backup_document [of sample_session sample_now]
    backup_document [of "sample_session\<lparr>crimes := []\<rparr>" sample_now]
  by (auto simp: backup_data_def lookup_key_def object_keys_def sample_session_def
      valid_datetime_def valid_date_def sample_now_def days_in_month_def)


section \<open>The columns of the CSV export\<close>

lemma decimal_zero: "decimal 0 = ''0''"
  by (simp add: decimal.simps [of 0] digit_char_def)

text \<open>
  Claim C1 says that the export has no \<open>Files\<close> column. Line 54 drops a column named
  \<open>File\<close>, which no record has (the key written at line 137 is \<open>Files\<close>), so nothing is
  dropped: the export of the one sample record has \<open>Files\<close> as the last name of its
  header and the count 0 as the last field of its row.
\<close>

theorem export_keeps_files_column:
  "export_to_csv (DataFrame [sample_crime]) =
     encode_utf8
       (''ID,Type,Location,Officer,Status,Priority,Description,Notes,Date_Registered,Incident_Date,Files'' @
        [CHR 0x0A] @
        ''CASE-20240307-A1B2C3,Theft,5th Ave,Officer Smith,Open,Medium,Stolen bicycle from porch,,2024-03-07 01:02:03,2024-03-07,0'' @
        [CHR 0x0A])"
  by (simp add: export_to_csv_def csv_text_def frame_of_def frame_empty_def drop_columns_def
      DataFrame_def with_incident_date_def sample_crime_def row_strs_def crime_keys_def
      to_csv_def csv_line_def csv_field_def decimal_zero)


section \<open>The free-text search\<close>

lemma sample_row_no_dot:
  "\<not> list_ex (literal_search ''.'') (row_strs (hd (DataFrame [sample_crime])))"
  by code_simp

lemma sample_row_dot:
  "filter_search ''.'' (DataFrame [sample_crime]) = Inr (DataFrame [sample_crime])"
  by (simp add: filter_search_def DataFrame_def with_incident_date_def
      sample_crime_def row_strs_def)

text \<open>
  Claim C3 says that the search text is taken as plain text. Line 189 hands it to
  \<open>str.contains\<close> as a regular expression: the text \<open>.\<close> keeps the sample record, none
  of whose fields holds a full stop.
\<close>

theorem search_dot_matches_everything:
  "filter_search ''.'' (DataFrame [sample_crime]) = Inr (DataFrame [sample_crime]) \<and>
   \<not> list_ex (literal_search ''.'') (row_strs (hd (DataFrame [sample_crime])))"
  using sample_row_dot sample_row_no_dot by (rule conjI)

end
